theory Spec2Isabelle
  imports Main
begin

section \<open>The user manager of src/js/user-manager.js\<close>

text \<open>
  A shallow embedding of the class \<open>UserManager\<close>: the user registry (a JavaScript
  \<open>Map\<close>), the single session, and the two \<open>localStorage\<close> entries the class
  reads and writes. Every method becomes a function from the state before the call to
  the state after it, paired with the returned value where the method returns one.
  The clock is an input: \<open>now\<close> stands for the value of \<open>Date.now()\<close> and
  \<open>stamp\<close> for the value of \<open>new Date().toISOString()\<close> at the call.
\<close>

subsection \<open>JavaScript values and objects\<close>

text \<open>
  The values a field of a user object holds: the primitives and arrays (\<open>permissions\<close>
  is an array of strings). Numbers are the integers \<open>Date.now()\<close> yields.
\<close>

datatype jsval =
    JUndefined
  | JNull
  | JBool bool
  | JNum int
  | JStr string
  | JArr "jsval list"

text \<open>
  A plain object is the list of its own properties in insertion order. User objects are
  open: \<open>addUser\<close> and \<open>updateUser\<close> copy whatever properties the caller passes.
\<close>

type_synonym obj = "(string \<times> jsval) list"

text \<open>Reading a property, \<open>o.k\<close>: \<open>undefined\<close> when the object has no such property.\<close>

definition get_prop :: "obj \<Rightarrow> string \<Rightarrow> jsval" where
  "get_prop ob k = (case map_of ob k of Some v \<Rightarrow> v | None \<Rightarrow> JUndefined)"

text \<open>The truth value JavaScript gives a value in \<open>!v\<close> and \<open>v || w\<close>.\<close>

fun truthy :: "jsval \<Rightarrow> bool" where
  "truthy JUndefined = False"
| "truthy JNull = False"
| "truthy (JBool b) = b"
| "truthy (JNum n) = (n \<noteq> 0)"
| "truthy (JStr s) = (s \<noteq> [])"
| "truthy (JArr xs) = True"

text \<open>
  \<open>Map.prototype.set\<close>, and equally the assignment of one property of an object: an
  existing key keeps its position and takes the new value, a new key goes to the end.
  Keys are compared structurally, which is what \<open>Map\<close> does on primitives (usernames
  are strings).
\<close>

fun map_set :: "'k \<Rightarrow> 'v \<Rightarrow> ('k \<times> 'v) list \<Rightarrow> ('k \<times> 'v) list" where
  "map_set k v [] = [(k, v)]"
| "map_set k v (e # m) = (if fst e = k then (k, v) # m else e # map_set k v m)"

definition map_has :: "('k \<times> 'v) list \<Rightarrow> 'k \<Rightarrow> bool" where
  "map_has m k = (map_of m k \<noteq> None)"

definition map_values :: "('k \<times> 'v) list \<Rightarrow> 'v list" where
  "map_values m = map snd m"

text \<open>
  The spread of an object literal, \<open>{...a, ...b, k: v}\<close>: the properties are assigned
  from left to right, later ones overwriting earlier ones of the same name.
\<close>

definition assign :: "obj \<Rightarrow> obj \<Rightarrow> obj" where
  "assign target src = fold (\<lambda>(k, v) ob. map_set k v ob) src target"

subsection \<open>JSON\<close>

text \<open>
  What \<open>JSON.parse (JSON.stringify v)\<close> returns. \<open>JSON.stringify\<close> leaves out every
  property whose value is \<open>undefined\<close> and writes \<open>null\<close> for an \<open>undefined\<close> array
  element. \<open>json_value\<close> is applied to the value of a property, so \<open>undefined\<close> stays:
  the property is gone after the round trip and reads as \<open>undefined\<close> again.
\<close>

fun json_value :: "jsval \<Rightarrow> jsval" where
  "json_value (JArr xs) = JArr (map (\<lambda>x. if x = JUndefined then JNull else json_value x) xs)"
| "json_value v = v"

definition json_obj :: "obj \<Rightarrow> obj" where
  "json_obj ob = map (\<lambda>(k, v). (k, json_value v)) (filter (\<lambda>(k, v). v \<noteq> JUndefined) ob)"

text \<open>
  The content of one \<open>localStorage\<close> entry, seen through what the class does with the
  string \<open>getItem\<close> returns. An absent entry (\<open>getItem\<close> returns \<open>null\<close>) is \<open>None\<close>;
  the empty string is falsy. \<open>Json v\<close> is a string that parses to a value \<open>v\<close> the
  method goes on to work with. \<open>Malformed\<close> is every other string: \<open>JSON.parse\<close>
  throws on it, or the method throws a TypeError on its value inside the same \<open>try\<close>
  block. For the users entry that is a value that is not an array (\<open>forEach\<close> is not a
  function). For the session entry it is \<open>null\<close> (the read of \<open>expiresAt\<close> throws) and a
  number, a string or a boolean (the assignment to \<open>expiresAt\<close> throws, the code of a
  class being strict). Writes always succeed.
\<close>

datatype 'a stored = EmptyString | Malformed | Json 'a

subsection \<open>State\<close>

text \<open>
  A session object, by the five properties the class reads or writes: the literal that
  \<open>authenticate\<close> builds, and equally what a stored session parses to. The first four
  are never interpreted and hold any value. \<open>expiresAt\<close> is the property as the
  comparison \<open>now > session.expiresAt\<close> sees it: the number it converts to, or \<open>None\<close>
  when the property is missing or converts to \<open>NaN\<close> (\<open>undefined\<close>, a non-numeric
  string), in which case the comparison is false.
\<close>

record session =
  username :: jsval
  displayName :: jsval
  role :: jsval
  loginTime :: jsval
  expiresAt :: "int option"

text \<open>The comparison \<open>now > session.expiresAt\<close>.\<close>

definition past :: "int \<Rightarrow> int option \<Rightarrow> bool" where
  "past now e = (case e of None \<Rightarrow> False | Some n \<Rightarrow> now > n)"

definition json_session :: "session \<Rightarrow> session" where
  "json_session se =
     se\<lparr>username := json_value (username se),
        displayName := json_value (displayName se),
        role := json_value (role se),
        loginTime := json_value (loginTime se)\<rparr>"

text \<open>
  What the stored session string parses to, when the method can read and assign its
  properties: an object, or an array. An array has none of the five properties, and
  \<open>JSON.stringify\<close> writes only its elements, so the \<open>expiresAt\<close> assigned to it is
  lost when it is stored again.
\<close>

datatype parsed_session = SessionObject session | SessionArray

definition read_session :: "parsed_session \<Rightarrow> session" where
  "read_session p =
     (case p of
        SessionObject se \<Rightarrow> se
      | SessionArray \<Rightarrow>
          \<lparr>username = JUndefined, displayName = JUndefined, role = JUndefined,
           loginTime = JUndefined, expiresAt = None\<rparr>)"

text \<open>\<open>JSON.parse (JSON.stringify session)\<close>, for the session read from \<open>p\<close> and updated.\<close>

definition stringify_session :: "parsed_session \<Rightarrow> session \<Rightarrow> parsed_session" where
  "stringify_session p se =
     (case p of SessionObject _ \<Rightarrow> SessionObject (json_session se) | SessionArray \<Rightarrow> SessionArray)"

text \<open>
  \<open>users\<close> and \<open>currentUser\<close> are the fields of the class; \<open>stored_users\<close> is
  \<open>localStorage['smirt_users']\<close> and \<open>stored_session\<close> is \<open>localStorage['smirt_session']\<close>.
\<close>

record state =
  users :: "(jsval \<times> obj) list"
  currentUser :: "session option"
  stored_users :: "obj list stored option"
  stored_session :: "parsed_session stored option"

text \<open>The state the constructor leaves, over a given \<open>localStorage\<close>.\<close>

definition constructor ::
  "obj list stored option \<Rightarrow> parsed_session stored option \<Rightarrow> state" where
  "constructor su ss = \<lparr>users = [], currentUser = None, stored_users = su, stored_session = ss\<rparr>"

definition sessionDuration :: int where
  "sessionDuration = 24 * 60 * 60 * 1000"

text \<open>
  The failure results, one per message the methods return with \<open>success: false\<close>:
  \<open>UserNotFound\<close> is 'Utente non trovato', \<open>UserInactive\<close> is 'Utente disattivato',
  \<open>InvalidCredential\<close> is 'Password errata', \<open>CurrentPasswordWrong\<close> is
  'Password attuale errata', \<open>DuplicateUser\<close> is 'Utente gia esistente' and
  \<open>PermissionDenied\<close> is 'Accesso negato'.
\<close>

datatype error =
    UserNotFound
  | UserInactive
  | InvalidCredential
  | CurrentPasswordWrong
  | DuplicateUser
  | PermissionDenied

subsection \<open>Loading and saving the registry\<close>

text \<open>
  \<open>saveUsers\<close>: the array of the registry's values, serialised. Since every write
  succeeds, the \<open>catch\<close> block of \<open>saveUsers\<close>, which only logs, is never entered.
\<close>

definition saveUsers :: "state \<Rightarrow> state" where
  "saveUsers s = s\<lparr>stored_users := Some (Json (map json_obj (map_values (users s))))\<rparr>"

definition defaultUsers :: "string \<Rightarrow> obj list" where
  "defaultUsers stamp =
     [[(''username'', JStr ''admin''),
       (''password'', JStr ''2977''),
       (''displayName'', JStr ''Amministratore''),
       (''role'', JStr ''admin''),
       (''active'', JBool True),
       (''createdAt'', JStr stamp)]]"

text \<open>The loop \<open>forEach(user => this.users.set(user.username, user))\<close>.\<close>

definition set_each :: "obj list \<Rightarrow> (jsval \<times> obj) list \<Rightarrow> (jsval \<times> obj) list" where
  "set_each us m = fold (\<lambda>user. map_set (get_prop user ''username'') user) us m"

definition initializeDefaultUsers :: "string \<Rightarrow> state \<Rightarrow> state" where
  "initializeDefaultUsers stamp s = saveUsers (s\<lparr>users := set_each (defaultUsers stamp) []\<rparr>)"

text \<open>
  The outcome of \<open>fetch('./users.json')\<close> and of reading its body, as \<open>loadUsers\<close>
  tells them apart: the request is rejected; the response is not \<open>ok\<close>;
  \<open>response.json()\<close> is rejected; the body has no \<open>users\<close> object, so that
  \<open>Object.entries\<close> throws, after the registry was cleared; or \<open>data.users\<close> is an
  object, given by its entries, each an object.
\<close>

datatype fetch_result =
    NetworkError
  | NotOk
  | BodyNotJson
  | NoUsersObject
  | Payload "(string \<times> obj) list"

text \<open>
  The user object the bootstrap loop builds for one entry of \<open>data.users\<close>. The loop
  is synchronous; one clock reading stands for the readings of all its rounds.
\<close>

definition bootstrap_user :: "string \<Rightarrow> string \<Rightarrow> obj \<Rightarrow> obj" where
  "bootstrap_user stamp name userData =
     [(''username'', JStr name),
      (''password'', get_prop userData ''password''),
      (''displayName'', get_prop userData ''displayName''),
      (''role'', get_prop userData ''role''),
      (''permissions'',
         (if truthy (get_prop userData ''permissions'') then get_prop userData ''permissions''
          else JArr [])),
      (''active'', JBool True),
      (''createdAt'', JStr stamp)]"

text \<open>
  The second \<open>try\<close> block of \<open>loadUsers\<close>: the persisted snapshot, or the default
  users when the entry is absent or the empty string (the last case below) and, through
  the \<open>catch\<close> block, when it is malformed.
\<close>

definition loadFromStorage :: "string \<Rightarrow> state \<Rightarrow> state" where
  "loadFromStorage stamp s =
     (case stored_users s of
        Some (Json usersArray) \<Rightarrow>
          (let s1 = s\<lparr>users := set_each usersArray []\<rparr>
           in if length (users s1) = 0 then initializeDefaultUsers stamp s1 else s1)
      | Some Malformed \<Rightarrow> initializeDefaultUsers stamp s
      | _ \<Rightarrow>
          (let s1 = initializeDefaultUsers stamp s
           in if length (users s1) = 0 then initializeDefaultUsers stamp s1 else s1))"

definition loadUsers :: "fetch_result \<Rightarrow> string \<Rightarrow> state \<Rightarrow> state" where
  "loadUsers fetched stamp s =
     (case fetched of
        Payload entries \<Rightarrow>
          saveUsers
            (s\<lparr>users :=
                 fold (\<lambda>(name, userData). map_set (JStr name) (bootstrap_user stamp name userData))
                   entries []\<rparr>)
      | NoUsersObject \<Rightarrow> loadFromStorage stamp (s\<lparr>users := []\<rparr>)
      | _ \<Rightarrow> loadFromStorage stamp s)"

subsection \<open>Sessions\<close>

definition logout :: "state \<Rightarrow> state" where
  "logout s = s\<lparr>currentUser := None, stored_session := None\<rparr>"

text \<open>
  \<open>authenticate\<close> reads the clock twice, once for \<open>loginTime\<close> and once for
  \<open>expiresAt\<close>.
\<close>

definition authenticate ::
  "string \<Rightarrow> string \<Rightarrow> int \<Rightarrow> int \<Rightarrow> state \<Rightarrow> (error + session) \<times> state" where
  "authenticate name pw now1 now2 s =
     (case map_of (users s) (JStr name) of
        None \<Rightarrow> (Inl UserNotFound, s)
      | Some user \<Rightarrow>
          if \<not> truthy (get_prop user ''active'') then (Inl UserInactive, s)
          else if get_prop user ''password'' \<noteq> JStr pw then (Inl InvalidCredential, s)
          else
            (let sessionData =
               \<lparr>username = get_prop user ''username'',
                displayName = get_prop user ''displayName'',
                role = get_prop user ''role'',
                loginTime = JNum now1,
                expiresAt = Some (now2 + sessionDuration)\<rparr>
             in (Inr sessionData,
                 s\<lparr>currentUser := Some sessionData,
                   stored_session := Some (Json (SessionObject (json_session sessionData)))\<rparr>)))"

definition isSessionValid :: "int \<Rightarrow> state \<Rightarrow> bool \<times> state" where
  "isSessionValid now s =
     (case stored_session s of
        Some (Json p) \<Rightarrow>
          (let se = read_session p
           in if past now (expiresAt se) then (False, logout s)
              else
                (let se1 = se\<lparr>expiresAt := Some (now + sessionDuration)\<rparr>
                 in (True, s\<lparr>stored_session := Some (Json (stringify_session p se1)),
                             currentUser := Some se1\<rparr>)))
      | _ \<Rightarrow> (False, s))"

definition getCurrentUser :: "int \<Rightarrow> state \<Rightarrow> session option \<times> state" where
  "getCurrentUser now s =
     (let (valid, s1) = isSessionValid now s
      in if valid then (currentUser s1, s1) else (None, s1))"

text \<open>\<open>hasRole\<close> returns \<open>currentUser && currentUser.role === role\<close>; its truth value.\<close>

definition hasRole :: "string \<Rightarrow> int \<Rightarrow> state \<Rightarrow> bool \<times> state" where
  "hasRole r now s =
     (let (cu, s1) = getCurrentUser now s
      in (case cu of None \<Rightarrow> (False, s1) | Some se \<Rightarrow> (role se = JStr r, s1)))"

definition isAdmin :: "int \<Rightarrow> state \<Rightarrow> bool \<times> state" where
  "isAdmin now s = hasRole ''admin'' now s"

subsection \<open>Registry operations\<close>

definition addUser :: "obj \<Rightarrow> string \<Rightarrow> state \<Rightarrow> (error + obj) \<times> state" where
  "addUser userData stamp s =
     (if map_has (users s) (get_prop userData ''username'') then (Inl DuplicateUser, s)
      else
        (let newUser = assign userData [(''active'', JBool True), (''createdAt'', JStr stamp)]
         in (Inr newUser,
             saveUsers (s\<lparr>users := map_set (get_prop userData ''username'') newUser (users s)\<rparr>))))"

definition updateUser :: "jsval \<Rightarrow> obj \<Rightarrow> string \<Rightarrow> state \<Rightarrow> (error + obj) \<times> state" where
  "updateUser name updates stamp s =
     (case map_of (users s) name of
        None \<Rightarrow> (Inl UserNotFound, s)
      | Some user \<Rightarrow>
          (let updatedUser = assign (assign user updates) [(''updatedAt'', JStr stamp)]
           in (Inr updatedUser, saveUsers (s\<lparr>users := map_set name updatedUser (users s)\<rparr>))))"

definition deactivateUser :: "jsval \<Rightarrow> string \<Rightarrow> state \<Rightarrow> (error + obj) \<times> state" where
  "deactivateUser name stamp s = updateUser name [(''active'', JBool False)] stamp s"

definition activateUser :: "jsval \<Rightarrow> string \<Rightarrow> state \<Rightarrow> (error + obj) \<times> state" where
  "activateUser name stamp s = updateUser name [(''active'', JBool True)] stamp s"

definition changePassword ::
  "jsval \<Rightarrow> string \<Rightarrow> string \<Rightarrow> string \<Rightarrow> state \<Rightarrow> (error + obj) \<times> state" where
  "changePassword name oldPassword newPassword stamp s =
     (case map_of (users s) name of
        None \<Rightarrow> (Inl UserNotFound, s)
      | Some user \<Rightarrow>
          if get_prop user ''password'' \<noteq> JStr oldPassword then (Inl CurrentPasswordWrong, s)
          else updateUser name [(''password'', JStr newPassword)] stamp s)"

text \<open>The object literal \<open>getAllUsers\<close> maps every user to.\<close>

definition listed :: "obj \<Rightarrow> obj" where
  "listed user =
     [(''username'', get_prop user ''username''),
      (''displayName'', get_prop user ''displayName''),
      (''role'', get_prop user ''role''),
      (''active'', get_prop user ''active''),
      (''createdAt'', get_prop user ''createdAt''),
      (''updatedAt'', get_prop user ''updatedAt'')]"

definition getAllUsers :: "int \<Rightarrow> state \<Rightarrow> (error + obj list) \<times> state" where
  "getAllUsers now s =
     (let (cu, s1) = getCurrentUser now s
      in (case cu of
            None \<Rightarrow> (Inl PermissionDenied, s1)
          | Some se \<Rightarrow>
              if role se \<noteq> JStr ''admin'' then (Inl PermissionDenied, s1)
              else (Inr (map listed (map_values (users s1))), s1)))"

subsection \<open>Sequences of registry operations\<close>

text \<open>
  The calls that change the registry after it was loaded, each with the clock reading
  it takes, and the state a sequence of them leaves.
\<close>

datatype registry_op =
    AddUser obj string
  | UpdateUser jsval obj string
  | ActivateUser jsval string
  | DeactivateUser jsval string
  | ChangePassword jsval string string string

fun apply_op :: "registry_op \<Rightarrow> state \<Rightarrow> state" where
  "apply_op (AddUser userData stamp) s = snd (addUser userData stamp s)"
| "apply_op (UpdateUser name updates stamp) s = snd (updateUser name updates stamp s)"
| "apply_op (ActivateUser name stamp) s = snd (activateUser name stamp s)"
| "apply_op (DeactivateUser name stamp) s = snd (deactivateUser name stamp s)"
| "apply_op (ChangePassword name old new stamp) s = snd (changePassword name old new stamp s)"

definition run :: "registry_op list \<Rightarrow> state \<Rightarrow> state" where
  "run ops s = fold apply_op ops s"

text \<open>An \<open>updateUser\<close> call whose patch itself carries a \<open>username\<close> property.\<close>

fun patches_username :: "registry_op \<Rightarrow> bool" where
  "patches_username (UpdateUser name updates stamp) = (''username'' \<in> set (map fst updates))"
| "patches_username _ = False"

subsection \<open>Properties of registries and records\<close>

text \<open>
  A registry is keyed when its keys are distinct, as the keys of a \<open>Map\<close> are, and
  every record is stored under the value of its own \<open>username\<close> property.
\<close>

definition keyed :: "(jsval \<times> obj) list \<Rightarrow> bool" where
  "keyed m = (distinct (map fst m) \<and> list_all (\<lambda>(k, user). get_prop user ''username'' = k) m)"

text \<open>
  A record is JSON data when its property names are distinct, as those of an object
  are, and no array in it holds \<open>undefined\<close>. A property may itself be \<open>undefined\<close>.
\<close>

definition json_data :: "obj \<Rightarrow> bool" where
  "json_data ob = (distinct (map fst ob) \<and> list_all (\<lambda>(f, v). json_value v = v) ob)"

text \<open>
  The redacted projection as the specification words it, for comparison with
  \<open>listed\<close>: a copy of the user record with the password property removed.
\<close>

definition spec_redacted :: "obj \<Rightarrow> obj" where
  "spec_redacted user = filter (\<lambda>(k, v). k \<noteq> ''password'') user"

subsection \<open>Example states\<close>

definition example_admin :: obj where
  "example_admin =
     [(''username'', JStr ''admin''),
      (''password'', JStr ''2977''),
      (''displayName'', JStr ''Amministratore''),
      (''role'', JStr ''admin''),
      (''permissions'', JArr [JStr ''reports'']),
      (''active'', JBool True),
      (''createdAt'', JStr ''2024-01-01T00:00:00.000Z'')]"

definition example_mario :: obj where
  "example_mario =
     [(''username'', JStr ''mario''),
      (''password'', JStr ''pw''),
      (''displayName'', JStr ''Mario Rossi''),
      (''role'', JStr ''tecnico''),
      (''permissions'', JArr []),
      (''active'', JBool False),
      (''createdAt'', JStr ''2024-01-01T00:00:00.000Z'')]"

definition admin_session :: session where
  "admin_session =
     \<lparr>username = JStr ''admin'', displayName = JStr ''Amministratore'', role = JStr ''admin'',
      loginTime = JNum 0, expiresAt = Some 86400000\<rparr>"

definition mario_session :: session where
  "mario_session =
     \<lparr>username = JStr ''mario'', displayName = JStr ''Mario Rossi'', role = JStr ''tecnico'',
      loginTime = JNum 0, expiresAt = Some 86400000\<rparr>"

text \<open>Two users, nobody logged in.\<close>

definition logged_out :: state where
  "logged_out =
     \<lparr>users = [(JStr ''admin'', example_admin), (JStr ''mario'', example_mario)],
      currentUser = None,
      stored_users = Some (Json [example_admin, example_mario]),
      stored_session = None\<rparr>"

text \<open>The same registry with the administrator, and with mario, logged in at time 0.\<close>

definition admin_logged_in :: state where
  "admin_logged_in =
     logged_out\<lparr>currentUser := Some admin_session,
                stored_session := Some (Json (SessionObject admin_session))\<rparr>"

definition mario_logged_in :: state where
  "mario_logged_in =
     logged_out\<lparr>currentUser := Some mario_session,
                stored_session := Some (Json (SessionObject mario_session))\<rparr>"

text \<open>
  The example registry over a session entry that holds the empty object \<open>{}\<close>, and
  over one that holds the empty array \<open>[]\<close>.
\<close>

definition empty_object :: session where
  "empty_object =
     \<lparr>username = JUndefined, displayName = JUndefined, role = JUndefined,
      loginTime = JUndefined, expiresAt = None\<rparr>"

definition object_stored :: state where
  "object_stored = logged_out\<lparr>stored_session := Some (Json (SessionObject empty_object))\<rparr>"

definition array_stored :: state where
  "array_stored = logged_out\<lparr>stored_session := Some (Json SessionArray)\<rparr>"

text \<open>A fresh instance over an empty \<open>localStorage\<close>.\<close>

definition fresh :: state where
  "fresh = constructor None None"

text \<open>
  The example registry after \<open>updateUser('mario', {username: 'admin'})\<close>, and the
  record that call leaves under the key \<open>mario\<close>.
\<close>

definition renamed :: state where
  "renamed =
     snd (updateUser (JStr ''mario'') [(''username'', JStr ''admin'')]
            ''2024-06-01T00:00:00.000Z'' logged_out)"

definition renamed_mario :: obj where
  "renamed_mario =
     [(''username'', JStr ''admin''),
      (''password'', JStr ''pw''),
      (''displayName'', JStr ''Mario Rossi''),
      (''role'', JStr ''tecnico''),
      (''permissions'', JArr []),
      (''active'', JBool False),
      (''createdAt'', JStr ''2024-01-01T00:00:00.000Z''),
      (''updatedAt'', JStr ''2024-06-01T00:00:00.000Z'')]"

text \<open>A fresh instance after \<open>addUser({username: 'x', permissions: [undefined]})\<close>.\<close>

definition sparse :: state where
  "sparse =
     snd (addUser [(''username'', JStr ''x''), (''permissions'', JArr [JUndefined])]
            ''2024-06-01T00:00:00.000Z'' fresh)"

text \<open>A new user, and a sequence of registry operations on the example registry.\<close>

definition example_luigi :: obj where
  "example_luigi =
     [(''username'', JStr ''luigi''),
      (''password'', JStr ''secret''),
      (''displayName'', JStr ''Luigi Verdi''),
      (''role'', JStr ''tecnico'')]"

definition example_ops :: "registry_op list" where
  "example_ops =
     [AddUser example_luigi ''2024-06-01T00:00:00.000Z'',
      UpdateUser (JStr ''luigi'') [(''displayName'', JStr ''L. Verdi'')] ''2024-06-02T00:00:00.000Z'',
      DeactivateUser (JStr ''mario'') ''2024-06-03T00:00:00.000Z'',
      ChangePassword (JStr ''admin'') ''2977'' ''0000'' ''2024-06-04T00:00:00.000Z'']"

section \<open>Properties\<close>

subsection \<open>Auxiliary facts\<close>

lemma sessionDuration_ms: "sessionDuration = 86400000"
  by (simp add: sessionDuration_def)

lemma map_of_map_set: "map_of (map_set k v m) = (map_of m)(k \<mapsto> v)"
  by (induction m) (auto simp: fun_eq_iff)

lemma keys_map_set: "fst ` set (map_set k v m) = insert k (fst ` set m)"
  by (induction m) auto

lemma distinct_map_set: "distinct (map fst m) \<Longrightarrow> distinct (map fst (map_set k v m))"
  by (induction m) (auto simp: keys_map_set)

lemma map_set_fresh: "k \<notin> fst ` set m \<Longrightarrow> map_set k v m = m @ [(k, v)]"
  by (induction m) auto

lemma list_all_map_set: "list_all P m \<Longrightarrow> P (k, v) \<Longrightarrow> list_all P (map_set k v m)"
  by (induction m) auto

lemma map_has_keys: "map_has m k = (k \<in> fst ` set m)"
  by (simp add: map_has_def map_of_eq_None_iff)

lemma get_prop_map_set: "get_prop (map_set k v ob) k' = (if k' = k then v else get_prop ob k')"
  by (simp add: get_prop_def map_of_map_set)

lemma get_prop_assign_other: "k \<notin> fst ` set src \<Longrightarrow> get_prop (assign ob src) k = get_prop ob k"
  unfolding assign_def
  by (induction src arbitrary: ob) (auto simp: get_prop_map_set)

subsection \<open>Authentication\<close>

text \<open>
  C1. \<open>authenticate\<close> fails with \<open>UserNotFound\<close> when the registry has no user of that
  name, with \<open>UserInactive\<close> when the user's \<open>active\<close> is false (or any other falsy
  value), and with \<open>InvalidCredential\<close> when the user is active and the stored password
  is not the supplied string. Every failure leaves the state as it was, so that
  \<open>getCurrentUser\<close> still returns nothing when no session was stored. Otherwise the
  call builds the session of that user, expiring 24 hours after the clock reading,
  caches it, persists it and returns it.
\<close>

theorem authenticate_results:
  "(map_of (users s) (JStr name) = None
      \<longrightarrow> authenticate name pw t1 t2 s = (Inl UserNotFound, s)) \<and>
   (map_of (users s) (JStr name) = Some user \<and> \<not> truthy (get_prop user ''active'')
      \<longrightarrow> authenticate name pw t1 t2 s = (Inl UserInactive, s)) \<and>
   (map_of (users s) (JStr name) = Some user \<and> truthy (get_prop user ''active'')
      \<and> get_prop user ''password'' \<noteq> JStr pw
      \<longrightarrow> authenticate name pw t1 t2 s = (Inl InvalidCredential, s)) \<and>
   (fst (authenticate name pw t1 t2 s) = Inl e
      \<longrightarrow> snd (authenticate name pw t1 t2 s) = s
          \<and> (stored_session s = None
               \<longrightarrow> fst (getCurrentUser t (snd (authenticate name pw t1 t2 s))) = None)) \<and>
   (map_of (users s) (JStr name) = Some user \<and> truthy (get_prop user ''active'')
      \<and> get_prop user ''password'' = JStr pw
      \<longrightarrow> (let se = \<lparr>username = get_prop user ''username'',
                       displayName = get_prop user ''displayName'',
                       role = get_prop user ''role'',
                       loginTime = JNum t1, expiresAt = Some (t2 + 86400000)\<rparr>
           in authenticate name pw t1 t2 s =
                (Inr se, s\<lparr>currentUser := Some se,
                           stored_session := Some (Json (SessionObject (json_session se)))\<rparr>)))"
  by (auto simp: authenticate_def getCurrentUser_def isSessionValid_def Let_def
        sessionDuration_ms split: option.splits)

text \<open>
  The five cases on the example registry: an unknown name, the deactivated mario, the
  administrator with a wrong and with the right password.
\<close>

theorem authenticate_results_witness:
  "authenticate ''nobody'' ''x'' 0 0 logged_out = (Inl UserNotFound, logged_out) \<and>
   authenticate ''mario'' ''pw'' 0 0 logged_out = (Inl UserInactive, logged_out) \<and>
   authenticate ''admin'' ''wrong-password'' 0 0 logged_out = (Inl InvalidCredential, logged_out) \<and>
   fst (getCurrentUser 5 (snd (authenticate ''admin'' ''wrong-password'' 0 0 logged_out))) = None \<and>
   authenticate ''admin'' ''2977'' 0 0 logged_out = (Inr admin_session, admin_logged_in)"
proof -
  have nobody: "map_of (users logged_out) (JStr ''nobody'') = None"
    by (simp add: logged_out_def)
  have mario: "map_of (users logged_out) (JStr ''mario'') = Some example_mario
      \<and> \<not> truthy (get_prop example_mario ''active'')"
    by (simp add: logged_out_def example_mario_def get_prop_def)
  have wrong: "map_of (users logged_out) (JStr ''admin'') = Some example_admin
      \<and> truthy (get_prop example_admin ''active'')
      \<and> get_prop example_admin ''password'' \<noteq> JStr ''wrong-password''"
    by (simp add: logged_out_def example_admin_def get_prop_def)
  have right: "map_of (users logged_out) (JStr ''admin'') = Some example_admin
      \<and> truthy (get_prop example_admin ''active'')
      \<and> get_prop example_admin ''password'' = JStr ''2977''"
    by (simp add: logged_out_def example_admin_def get_prop_def)
  have none: "stored_session logged_out = None"
    by (simp add: logged_out_def)
  have session: "\<lparr>username = get_prop example_admin ''username'',
       displayName = get_prop example_admin ''displayName'',
       role = get_prop example_admin ''role'',
       loginTime = JNum 0, expiresAt = Some 86400000\<rparr> = admin_session"
    by (simp add: example_admin_def get_prop_def admin_session_def)
  have stored: "json_session admin_session = admin_session"
    by (simp add: json_session_def admin_session_def)
  note a = authenticate_results [where s = logged_out and ?t1.0 = 0 and ?t2.0 = 0 and t = 5]
  from a [where name = "''nobody''" and pw = "''x''"] nobody
  have c1: "authenticate ''nobody'' ''x'' 0 0 logged_out = (Inl UserNotFound, logged_out)"
    by blast
  from a [where name = "''mario''" and pw = "''pw''" and user = example_mario] mario
  have c2: "authenticate ''mario'' ''pw'' 0 0 logged_out = (Inl UserInactive, logged_out)"
    by blast
  note w = a [where name = "''admin''" and pw = "''wrong-password''" and user = example_admin
       and e = InvalidCredential]
  from w wrong
  have c3a: "authenticate ''admin'' ''wrong-password'' 0 0 logged_out
        = (Inl InvalidCredential, logged_out)"
    by blast
  from w c3a none
  have c3b: "fst (getCurrentUser 5 (snd (authenticate ''admin'' ''wrong-password'' 0 0 logged_out)))
        = None"
    by simp
  from a [where name = "''admin''" and pw = "''2977''" and user = example_admin] right
  have c4: "authenticate ''admin'' ''2977'' 0 0 logged_out = (Inr admin_session, admin_logged_in)"
    by (simp add: Let_def session stored admin_logged_in_def)
  from c1 c2 c3a c3b c4 show ?thesis by simp
qed

subsection \<open>Session validation\<close>

text \<open>
  C2. \<open>isSessionValid\<close> at time \<open>t\<close>: with no session in storage (no entry, or one that
  holds no parseable session) it returns false and changes nothing; when \<open>t\<close> is past
  the stored session's \<open>expiresAt\<close> it clears the stored session and the cache and
  returns false; otherwise it returns true, sets \<open>expiresAt\<close> to \<open>t\<close> plus 24 hours
  (86400000 ms), stores the session again and caches it. Otherwise includes a stored
  object whose \<open>expiresAt\<close> is missing or not a number, and a stored array, which is
  cached with the new \<open>expiresAt\<close> and stored again as it was. Two successful
  validations at times \<open>t1 \<le> t2\<close> therefore leave expiry times
  \<open>t1 + 86400000 \<le> t2 + 86400000\<close>, in the cache and, for a stored object, in storage.
\<close>

theorem isSessionValid_cases:
  "(stored_session s = None \<or> stored_session s = Some EmptyString
      \<or> stored_session s = Some Malformed
      \<longrightarrow> isSessionValid t s = (False, s)) \<and>
   (stored_session s = Some (Json (SessionObject se)) \<and> expiresAt se = Some e \<and> e < t
      \<longrightarrow> isSessionValid t s = (False, s\<lparr>currentUser := None, stored_session := None\<rparr>)) \<and>
   (stored_session s = Some (Json (SessionObject se))
      \<and> (case expiresAt se of None \<Rightarrow> True | Some e \<Rightarrow> t \<le> e)
      \<longrightarrow> isSessionValid t s =
            (True, s\<lparr>stored_session :=
                       Some (Json (SessionObject
                         (json_session (se\<lparr>expiresAt := Some (t + 86400000)\<rparr>)))),
                     currentUser := Some (se\<lparr>expiresAt := Some (t + 86400000)\<rparr>)\<rparr>)) \<and>
   (stored_session s = Some (Json SessionArray)
      \<longrightarrow> isSessionValid t s =
            (True, s\<lparr>stored_session := Some (Json SessionArray),
                     currentUser :=
                       Some \<lparr>username = JUndefined, displayName = JUndefined,
                             role = JUndefined, loginTime = JUndefined,
                             expiresAt = Some (t + 86400000)\<rparr>\<rparr>)) \<and>
   (isSessionValid t1 s = (True, s1) \<and> isSessionValid t2 s1 = (True, s2) \<and> t1 \<le> t2
      \<longrightarrow> (\<exists>c1 c2. currentUser s1 = Some c1 \<and> currentUser s2 = Some c2
             \<and> expiresAt c1 = Some (t1 + 86400000) \<and> expiresAt c2 = Some (t2 + 86400000)
             \<and> t1 + 86400000 \<le> t2 + 86400000)
          \<and> (\<forall>se. stored_session s = Some (Json (SessionObject se))
                \<longrightarrow> (\<exists>e1 e2. stored_session s1 = Some (Json (SessionObject e1))
                       \<and> stored_session s2 = Some (Json (SessionObject e2))
                       \<and> expiresAt e1 = Some (t1 + 86400000)
                       \<and> expiresAt e2 = Some (t2 + 86400000))))"
  by (auto simp: isSessionValid_def logout_def Let_def sessionDuration_ms json_session_def
        past_def read_session_def stringify_session_def
        split: option.splits stored.splits if_splits parsed_session.splits)

text \<open>
  On the examples: no stored session; the administrator's session one millisecond after
  its expiry; the same session validated at 1000 and then at 2000; the stored empty
  object and the stored array.
\<close>

theorem isSessionValid_cases_witness:
  "isSessionValid 1000 logged_out = (False, logged_out) \<and>
   isSessionValid 86400001 admin_logged_in = (False, logged_out) \<and>
   isSessionValid 1000 admin_logged_in =
     (True, logged_out\<lparr>stored_session :=
                        Some (Json (SessionObject (admin_session\<lparr>expiresAt := Some 86401000\<rparr>))),
                      currentUser := Some (admin_session\<lparr>expiresAt := Some 86401000\<rparr>)\<rparr>) \<and>
   isSessionValid 1000 object_stored =
     (True, logged_out\<lparr>stored_session :=
                        Some (Json (SessionObject (empty_object\<lparr>expiresAt := Some 86401000\<rparr>))),
                      currentUser := Some (empty_object\<lparr>expiresAt := Some 86401000\<rparr>)\<rparr>) \<and>
   isSessionValid 1000 array_stored =
     (True, array_stored\<lparr>currentUser := Some (empty_object\<lparr>expiresAt := Some 86401000\<rparr>)\<rparr>) \<and>
   (\<exists>e1 e2.
      stored_session (snd (isSessionValid 1000 admin_logged_in)) = Some (Json (SessionObject e1)) \<and>
      stored_session (snd (isSessionValid 2000 (snd (isSessionValid 1000 admin_logged_in))))
        = Some (Json (SessionObject e2)) \<and>
      expiresAt e1 = Some 86401000 \<and> expiresAt e2 = Some 86402000)"
proof -
  have none: "stored_session logged_out = None"
    by (simp add: logged_out_def)
  have some: "stored_session admin_logged_in = Some (Json (SessionObject admin_session))"
    by (simp add: admin_logged_in_def)
  have late: "expiresAt admin_session = Some 86400000 \<and> (86400000::int) < 86400001"
    and early: "(case expiresAt admin_session of None \<Rightarrow> True | Some e \<Rightarrow> 1000 \<le> e)"
    by (simp_all add: admin_session_def)
  have stored: "json_session (admin_session\<lparr>expiresAt := Some 86401000\<rparr>)
      = admin_session\<lparr>expiresAt := Some 86401000\<rparr>"
    by (simp add: json_session_def admin_session_def)
  have object: "stored_session object_stored = Some (Json (SessionObject empty_object))
      \<and> (case expiresAt empty_object of None \<Rightarrow> True | Some e \<Rightarrow> 1000 \<le> e)"
    and object_json: "json_session (empty_object\<lparr>expiresAt := Some 86401000\<rparr>)
      = empty_object\<lparr>expiresAt := Some 86401000\<rparr>"
    by (simp_all add: object_stored_def empty_object_def json_session_def)
  have array: "stored_session array_stored = Some (Json SessionArray)"
    by (simp add: array_stored_def)
  from isSessionValid_cases [where s = logged_out and t = 1000] none
  have c1: "isSessionValid 1000 logged_out = (False, logged_out)"
    by blast
  from isSessionValid_cases [where s = admin_logged_in and t = 86400001 and se = admin_session
      and e = 86400000] some late
  have c2: "isSessionValid 86400001 admin_logged_in = (False, logged_out)"
    by (simp add: admin_logged_in_def logged_out_def)
  from isSessionValid_cases [where s = admin_logged_in and t = 1000 and se = admin_session]
    some early
  have c3: "isSessionValid 1000 admin_logged_in =
     (True, logged_out\<lparr>stored_session :=
                        Some (Json (SessionObject (admin_session\<lparr>expiresAt := Some 86401000\<rparr>))),
                      currentUser := Some (admin_session\<lparr>expiresAt := Some 86401000\<rparr>)\<rparr>)"
    by (simp add: stored admin_logged_in_def)
  from isSessionValid_cases [where s = object_stored and t = 1000 and se = empty_object] object
  have c4: "isSessionValid 1000 object_stored =
     (True, logged_out\<lparr>stored_session :=
                        Some (Json (SessionObject (empty_object\<lparr>expiresAt := Some 86401000\<rparr>))),
                      currentUser := Some (empty_object\<lparr>expiresAt := Some 86401000\<rparr>)\<rparr>)"
    by (simp add: object_json object_stored_def)
  from isSessionValid_cases [where s = array_stored and t = 1000] array
  have c5: "isSessionValid 1000 array_stored =
     (True, array_stored\<lparr>currentUser := Some (empty_object\<lparr>expiresAt := Some 86401000\<rparr>)\<rparr>)"
    by (simp add: array_stored_def empty_object_def)
  define s1 where "s1 = snd (isSessionValid 1000 admin_logged_in)"
  define s2 where "s2 = snd (isSessionValid 2000 s1)"
  have v1: "isSessionValid 1000 admin_logged_in = (True, s1)"
    by (simp add: s1_def c3)
  have s1_stored: "stored_session s1
        = Some (Json (SessionObject (admin_session\<lparr>expiresAt := Some 86401000\<rparr>)))
      \<and> (case expiresAt (admin_session\<lparr>expiresAt := Some 86401000\<rparr>) of
            None \<Rightarrow> True | Some e \<Rightarrow> 2000 \<le> e)"
    by (simp add: s1_def c3)
  from isSessionValid_cases [where s = s1 and t = 2000
      and se = "admin_session\<lparr>expiresAt := Some 86401000\<rparr>"] s1_stored
  have v2: "isSessionValid 2000 s1 = (True, s2)"
    by (simp add: s2_def)
  from isSessionValid_cases [where s = admin_logged_in and ?t1.0 = 1000 and ?s1.0 = s1
      and ?t2.0 = 2000 and ?s2.0 = s2] v1 v2 some
  have c6: "\<exists>e1 e2. stored_session s1 = Some (Json (SessionObject e1))
      \<and> stored_session s2 = Some (Json (SessionObject e2))
      \<and> expiresAt e1 = Some 86401000 \<and> expiresAt e2 = Some 86402000"
    by simp
  from c1 c2 c3 c4 c5 c6 show ?thesis
    unfolding s1_def s2_def by simp
qed




subsection \<open>Loading the registry\<close>

lemma users_initializeDefaultUsers:
  "users (initializeDefaultUsers stamp s) = [(JStr ''admin'', hd (defaultUsers stamp))]"
  by (simp add: initializeDefaultUsers_def saveUsers_def set_each_def defaultUsers_def get_prop_def)

lemma fold_map_set_nonempty:
  "m \<noteq> [] \<or> es \<noteq> [] \<Longrightarrow> fold (\<lambda>x. map_set (f x) (g x)) es m \<noteq> []"
proof (induction es arbitrary: m)
  case Nil
  then show ?case by simp
next
  case (Cons e es)
  have "map_set (f e) (g e) m \<noteq> []" by (cases m) auto
  then show ?case using Cons.IH by simp
qed

lemma loadFromStorage_nonempty: "users (loadFromStorage stamp s) \<noteq> []"
  by (auto simp: loadFromStorage_def Let_def users_initializeDefaultUsers
           split: option.splits stored.splits)

text \<open>Every outcome of the fetch but an empty \<open>users\<close> object leaves a user.\<close>

lemma loadUsers_nonempty:
  "fetched \<noteq> Payload [] \<Longrightarrow> users (loadUsers fetched stamp s) \<noteq> []"
proof (cases fetched)
  case (Payload es)
  assume "fetched \<noteq> Payload []"
  with Payload have "es \<noteq> []" by simp
  then have "fold (\<lambda>x. map_set (JStr (fst x)) (bootstrap_user stamp (fst x) (snd x))) es [] \<noteq> []"
    by (intro fold_map_set_nonempty) simp
  then show ?thesis using Payload by (simp add: loadUsers_def saveUsers_def case_prod_unfold)
qed (simp_all add: loadUsers_def loadFromStorage_nonempty)

text \<open>
  C3. The registry is meant to hold at least one user after \<open>loadUsers\<close>. When the
  fetch succeeds with a body whose \<open>users\<close> object is empty, \<open>loadUsers\<close> clears the
  registry, saves and returns before the check \<open>this.users.size === 0\<close> of the storage
  path: whatever the state before, the registry is empty afterwards.
\<close>

theorem loadUsers_empty_payload: "users (loadUsers (Payload []) stamp s) = []"
  by (simp add: loadUsers_def saveUsers_def)

text \<open>
  C8. When the fetch fails and the persisted user store is absent, the empty string,
  unparseable or an empty array, \<open>loadUsers\<close> leaves exactly one user, stored under
  \<open>admin\<close>, whose username is \<open>admin\<close>, whose role is \<open>admin\<close> and who is active.
  This holds from every registry, the empty one included.
\<close>

theorem loadUsers_seeds_admin:
  "fetched = NetworkError \<or> fetched = NotOk \<or> fetched = BodyNotJson \<or> fetched = NoUsersObject \<Longrightarrow>
   stored_users s = None \<or> stored_users s = Some EmptyString \<or> stored_users s = Some Malformed
     \<or> stored_users s = Some (Json []) \<Longrightarrow>
   \<exists>u. users (loadUsers fetched stamp s) = [(JStr ''admin'', u)]
     \<and> get_prop u ''username'' = JStr ''admin''
     \<and> get_prop u ''role'' = JStr ''admin''
     \<and> get_prop u ''active'' = JBool True"
  by (auto simp: loadUsers_def loadFromStorage_def Let_def users_initializeDefaultUsers
        set_each_def defaultUsers_def get_prop_def)

text \<open>A fresh instance, the network down, nothing in storage.\<close>

theorem loadUsers_seeds_admin_witness:
  "users fresh = [] \<and> stored_users fresh = None \<and>
   (\<exists>u. users (loadUsers NetworkError ''2024-06-01T00:00:00.000Z'' fresh) = [(JStr ''admin'', u)]
      \<and> get_prop u ''username'' = JStr ''admin''
      \<and> get_prop u ''role'' = JStr ''admin''
      \<and> get_prop u ''active'' = JBool True)"
proof -
  have empty: "users fresh = []" and absent: "stored_users fresh = None"
    by (simp_all add: fresh_def constructor_def)
  from absent have store: "stored_users fresh = None \<or> stored_users fresh = Some EmptyString
      \<or> stored_users fresh = Some Malformed \<or> stored_users fresh = Some (Json [])"
    by simp
  have down: "NetworkError = NetworkError \<or> NetworkError = NotOk \<or> NetworkError = BodyNotJson
      \<or> NetworkError = NoUsersObject"
    by simp
  from loadUsers_seeds_admin [OF down store, of "''2024-06-01T00:00:00.000Z''"] empty absent
  show ?thesis by simp
qed

subsection \<open>Adding users\<close>

text \<open>
  C6. \<open>addUser\<close> with a username the registry already holds returns \<open>DuplicateUser\<close>
  and leaves the state unchanged. Hence of two calls with the same username the second
  returns \<open>DuplicateUser\<close> and leaves the registry, and its size, as the first left it.
  With a new username, \<open>addUser\<close> returns the new record, which is the data passed with
  \<open>active\<close> true and \<open>createdAt\<close> the clock reading; the record is appended to the
  registry under its username and the registry is persisted.
\<close>

theorem addUser_results:
  "(map_has (users s) (get_prop d ''username'')
      \<longrightarrow> addUser d stamp s = (Inl DuplicateUser, s)) \<and>
   (get_prop d2 ''username'' = get_prop d1 ''username''
      \<longrightarrow> (let s1 = snd (addUser d1 stamp1 s); r2 = addUser d2 stamp2 s1
           in fst r2 = Inl DuplicateUser \<and> snd r2 = s1
              \<and> length (users (snd r2)) = length (users s1))) \<and>
   (\<not> map_has (users s) (get_prop d ''username'')
      \<longrightarrow> (\<exists>newUser s1. addUser d stamp s = (Inr newUser, s1)
            \<and> get_prop newUser ''active'' = JBool True
            \<and> get_prop newUser ''createdAt'' = JStr stamp
            \<and> (\<forall>k. k \<noteq> ''active'' \<and> k \<noteq> ''createdAt'' \<longrightarrow> get_prop newUser k = get_prop d k)
            \<and> users s1 = users s @ [(get_prop d ''username'', newUser)]
            \<and> stored_users s1 = Some (Json (map json_obj (map_values (users s1))))
            \<and> currentUser s1 = currentUser s \<and> stored_session s1 = stored_session s))"
  by (auto simp: addUser_def Let_def map_has_keys keys_map_set saveUsers_def assign_def
        get_prop_map_set map_set_fresh)

text \<open>
  On the example registry: adding \<open>mario\<close> again; adding \<open>luigi\<close> twice; adding
  \<open>luigi\<close> once.
\<close>

theorem addUser_results_witness:
  "addUser example_mario ''2024-06-01T00:00:00.000Z'' logged_out = (Inl DuplicateUser, logged_out) \<and>
   fst (addUser example_luigi ''2024-06-02T00:00:00.000Z''
          (snd (addUser example_luigi ''2024-06-01T00:00:00.000Z'' logged_out)))
     = Inl DuplicateUser \<and>
   length (users (snd (addUser example_luigi ''2024-06-02T00:00:00.000Z''
          (snd (addUser example_luigi ''2024-06-01T00:00:00.000Z'' logged_out)))))
     = length (users (snd (addUser example_luigi ''2024-06-01T00:00:00.000Z'' logged_out))) \<and>
   (\<exists>newUser s1. addUser example_luigi ''2024-06-01T00:00:00.000Z'' logged_out = (Inr newUser, s1)
      \<and> get_prop newUser ''active'' = JBool True
      \<and> get_prop newUser ''createdAt'' = JStr ''2024-06-01T00:00:00.000Z''
      \<and> users s1 = users logged_out @ [(JStr ''luigi'', newUser)])"
proof -
  have present: "map_has (users logged_out) (get_prop example_mario ''username'')"
    by (simp add: map_has_def logged_out_def example_mario_def get_prop_def)
  have absent: "\<not> map_has (users logged_out) (get_prop example_luigi ''username'')"
    and key: "get_prop example_luigi ''username'' = JStr ''luigi''"
    by (simp_all add: map_has_def logged_out_def example_luigi_def get_prop_def)
  from addUser_results [where s = logged_out and d = example_mario] present
  have c1: "addUser example_mario ''2024-06-01T00:00:00.000Z'' logged_out
      = (Inl DuplicateUser, logged_out)"
    by blast
  from addUser_results [where s = logged_out and ?d1.0 = example_luigi and ?d2.0 = example_luigi
      and ?stamp1.0 = "''2024-06-01T00:00:00.000Z''" and ?stamp2.0 = "''2024-06-02T00:00:00.000Z''"]
  have c2: "fst (addUser example_luigi ''2024-06-02T00:00:00.000Z''
          (snd (addUser example_luigi ''2024-06-01T00:00:00.000Z'' logged_out)))
     = Inl DuplicateUser \<and>
   length (users (snd (addUser example_luigi ''2024-06-02T00:00:00.000Z''
          (snd (addUser example_luigi ''2024-06-01T00:00:00.000Z'' logged_out)))))
     = length (users (snd (addUser example_luigi ''2024-06-01T00:00:00.000Z'' logged_out)))"
    by (simp add: Let_def)
  from addUser_results [where s = logged_out and d = example_luigi
      and stamp = "''2024-06-01T00:00:00.000Z''"] absent
  have c3: "\<exists>newUser s1. addUser example_luigi ''2024-06-01T00:00:00.000Z'' logged_out
        = (Inr newUser, s1)
      \<and> get_prop newUser ''active'' = JBool True
      \<and> get_prop newUser ''createdAt'' = JStr ''2024-06-01T00:00:00.000Z''
      \<and> users s1 = users logged_out @ [(JStr ''luigi'', newUser)]"
    unfolding key by blast
  from c1 c2 c3 show ?thesis by blast
qed

subsection \<open>Usernames as keys\<close>

lemma keyed_Nil: "keyed []"
  by (simp add: keyed_def)

lemma keyed_map_set:
  "keyed m \<Longrightarrow> get_prop user ''username'' = k \<Longrightarrow> keyed (map_set k user m)"
  by (simp add: keyed_def distinct_map_set list_all_map_set)

lemma keyed_lookup: "keyed m \<Longrightarrow> map_of m k = Some user \<Longrightarrow> get_prop user ''username'' = k"
  by (auto simp: keyed_def list_all_iff dest: map_of_SomeD)

lemma keyed_fold:
  "keyed m \<Longrightarrow> (\<And>x. x \<in> set xs \<Longrightarrow> get_prop (g x) ''username'' = f x)
     \<Longrightarrow> keyed (fold (\<lambda>x. map_set (f x) (g x)) xs m)"
  by (induction xs arbitrary: m) (auto simp: keyed_map_set)

lemma keyed_set_each: "keyed m \<Longrightarrow> keyed (set_each us m)"
  unfolding set_each_def by (rule keyed_fold) auto

lemma keyed_initializeDefaultUsers: "keyed (users (initializeDefaultUsers stamp s))"
  by (simp add: initializeDefaultUsers_def saveUsers_def keyed_set_each keyed_Nil)

lemma keyed_loadFromStorage: "keyed (users (loadFromStorage stamp s))"
  by (auto simp: loadFromStorage_def Let_def keyed_initializeDefaultUsers keyed_set_each keyed_Nil
        split: option.splits stored.splits)

lemma keyed_loadUsers: "keyed (users (loadUsers fetched stamp s))"
proof (cases fetched)
  case (Payload es)
  have "keyed (fold (\<lambda>x. map_set (JStr (fst x)) (bootstrap_user stamp (fst x) (snd x))) es [])"
    by (rule keyed_fold) (auto simp: keyed_Nil bootstrap_user_def get_prop_def)
  then show ?thesis using Payload by (simp add: loadUsers_def saveUsers_def case_prod_unfold)
qed (simp_all add: loadUsers_def keyed_loadFromStorage)

lemma users_updateUser:
  "users (snd (updateUser name updates stamp s)) =
     (case map_of (users s) name of
        None \<Rightarrow> users s
      | Some user \<Rightarrow>
          map_set name (assign (assign user updates) [(''updatedAt'', JStr stamp)]) (users s))"
  by (simp add: updateUser_def saveUsers_def Let_def split: option.splits)

lemma username_updated:
  "''username'' \<notin> set (map fst updates) \<Longrightarrow>
   get_prop (assign (assign user updates) [(''updatedAt'', JStr stamp)]) ''username''
     = get_prop user ''username''"
  by (simp add: get_prop_assign_other)

lemma keyed_updateUser:
  assumes "keyed (users s)" and "''username'' \<notin> set (map fst updates)"
  shows "keyed (users (snd (updateUser name updates stamp s)))"
proof (cases "map_of (users s) name")
  case None
  then show ?thesis using assms by (simp add: users_updateUser)
next
  case (Some user)
  have "get_prop (assign (assign user updates) [(''updatedAt'', JStr stamp)]) ''username'' = name"
    using username_updated[OF assms(2)] keyed_lookup[OF assms(1) Some] by simp
  then show ?thesis using Some assms(1) by (simp add: users_updateUser keyed_map_set)
qed

lemma keyed_addUser:
  assumes "keyed (users s)"
  shows "keyed (users (snd (addUser userData stamp s)))"
proof -
  have "get_prop (assign userData [(''active'', JBool True), (''createdAt'', JStr stamp)]) ''username''
        = get_prop userData ''username''"
    by (simp add: get_prop_assign_other)
  then show ?thesis using assms
    by (simp add: addUser_def Let_def saveUsers_def keyed_map_set)
qed

lemma keyed_apply_op:
  "keyed (users s) \<Longrightarrow> \<not> patches_username op \<Longrightarrow> keyed (users (apply_op op s))"
proof (cases op)
  case (ChangePassword name old new stamp)
  assume "keyed (users s)"
  then show ?thesis using ChangePassword
    by (auto simp: changePassword_def keyed_updateUser split: option.splits)
qed (simp_all add: keyed_addUser keyed_updateUser activateUser_def deactivateUser_def)

lemma keys_apply_op: "fst ` set (users s) \<subseteq> fst ` set (users (apply_op op s))"
  by (cases op)
     (auto simp: addUser_def updateUser_def activateUser_def deactivateUser_def changePassword_def
        saveUsers_def Let_def keys_map_set split: option.splits)

lemma keyed_run:
  "keyed (users s) \<Longrightarrow> list_all (\<lambda>op. \<not> patches_username op) ops \<Longrightarrow> keyed (users (run ops s))"
  unfolding run_def by (induction ops arbitrary: s) (auto simp: keyed_apply_op)

lemma keys_run: "fst ` set (users s) \<subseteq> fst ` set (users (run ops s))"
  unfolding run_def
proof (induction ops arbitrary: s)
  case Nil
  then show ?case by simp
next
  case (Cons op ops)
  show ?case using keys_apply_op[of s op] Cons.IH[of "apply_op op s"] by auto
qed

text \<open>
  C5, as the code has it. The registry the constructor leaves and the one \<open>loadUsers\<close>
  leaves are keyed: the keys are distinct and every record is stored under its own
  username. Any sequence of \<open>addUser\<close>, \<open>updateUser\<close>, \<open>activateUser\<close>, \<open>deactivateUser\<close>
  and \<open>changePassword\<close> calls in which no \<open>updateUser\<close> patch carries a \<open>username\<close>
  property keeps the registry keyed, keeps every key, and leaves every record's
  username as it was. In particular \<open>updateUser\<close> with a patch that carries no
  \<open>username\<close> property leaves the record's username unchanged.
\<close>

theorem username_is_key:
  "keyed (users (constructor su ss)) \<and>
   keyed (users (loadUsers fetched stamp s0)) \<and>
   (keyed (users s) \<and> list_all (\<lambda>op. \<not> patches_username op) ops
      \<longrightarrow> keyed (users (run ops s))
          \<and> (\<forall>k user. map_of (users s) k = Some user
                \<longrightarrow> (\<exists>user1. map_of (users (run ops s)) k = Some user1
                       \<and> get_prop user1 ''username'' = get_prop user ''username''))) \<and>
   (map_of (users s) name = Some user \<and> ''username'' \<notin> set (map fst updates)
      \<longrightarrow> (\<exists>user1. map_of (users (snd (updateUser name updates stamp s))) name = Some user1
             \<and> get_prop user1 ''username'' = get_prop user ''username''))"
proof (intro conjI impI allI)
  show "keyed (users (constructor su ss))" by (simp add: constructor_def keyed_Nil)
  show "keyed (users (loadUsers fetched stamp s0))" by (rule keyed_loadUsers)
next
  assume h: "keyed (users s) \<and> list_all (\<lambda>op. \<not> patches_username op) ops"
  then show "keyed (users (run ops s))" by (simp add: keyed_run)
next
  fix k user
  assume h: "keyed (users s) \<and> list_all (\<lambda>op. \<not> patches_username op) ops"
    and l: "map_of (users s) k = Some user"
  from l have "k \<in> fst ` set (users s)" by (auto dest: map_of_SomeD intro: rev_image_eqI)
  then have "k \<in> fst ` set (users (run ops s))" using keys_run by blast
  then obtain user1 where u1: "map_of (users (run ops s)) k = Some user1"
    by (cases "map_of (users (run ops s)) k") (auto simp: map_of_eq_None_iff)
  have "get_prop user1 ''username'' = k"
    using keyed_lookup[OF _ u1] h by (simp add: keyed_run)
  moreover have "get_prop user ''username'' = k" using keyed_lookup[OF _ l] h by simp
  ultimately show "\<exists>user1. map_of (users (run ops s)) k = Some user1
       \<and> get_prop user1 ''username'' = get_prop user ''username''"
    using u1 by simp
next
  assume "map_of (users s) name = Some user \<and> ''username'' \<notin> set (map fst updates)"
  then show "\<exists>user1. map_of (users (snd (updateUser name updates stamp s))) name = Some user1
             \<and> get_prop user1 ''username'' = get_prop user ''username''"
    by (simp add: users_updateUser map_of_map_set username_updated)
qed

text \<open>
  On the example registry: four operations, none patching a username, and mario's
  record before and after them; then one \<open>deactivateUser\<close> seen as the \<open>updateUser\<close>
  it is.
\<close>

theorem username_is_key_witness:
  "keyed (users logged_out) \<and>
   keyed (users (run example_ops logged_out)) \<and>
   (\<exists>user1. map_of (users (run example_ops logged_out)) (JStr ''mario'') = Some user1
      \<and> get_prop user1 ''username'' = JStr ''mario'') \<and>
   (\<exists>user1. map_of (users (snd (updateUser (JStr ''mario'') [(''active'', JBool False)]
                 ''2024-06-03T00:00:00.000Z'' logged_out))) (JStr ''mario'') = Some user1
      \<and> get_prop user1 ''username'' = JStr ''mario'')"
proof -
  have k: "keyed (users logged_out)"
    by (simp add: keyed_def logged_out_def example_admin_def example_mario_def get_prop_def)
  have ops: "list_all (\<lambda>op. \<not> patches_username op) example_ops"
    by (simp add: example_ops_def)
  have mario: "map_of (users logged_out) (JStr ''mario'') = Some example_mario"
    and name: "get_prop example_mario ''username'' = JStr ''mario''"
    by (simp_all add: logged_out_def example_mario_def get_prop_def)
  have patch: "''username'' \<notin> set (map fst [(''active'', JBool False)])"
    by simp
  note u = username_is_key [where s = logged_out and ops = example_ops and name = "JStr ''mario''"
      and user = example_mario and updates = "[(''active'', JBool False)]"
      and stamp = "''2024-06-03T00:00:00.000Z''"]
  from u k ops have c1: "keyed (users (run example_ops logged_out))"
    by blast
  from u k ops mario
  have c2: "\<exists>user1. map_of (users (run example_ops logged_out)) (JStr ''mario'') = Some user1
      \<and> get_prop user1 ''username'' = get_prop example_mario ''username''"
    by blast
  from u mario patch
  have c3: "\<exists>user1. map_of (users (snd (updateUser (JStr ''mario'') [(''active'', JBool False)]
                 ''2024-06-03T00:00:00.000Z'' logged_out))) (JStr ''mario'') = Some user1
      \<and> get_prop user1 ''username'' = get_prop example_mario ''username''"
    by blast
  from k c1 c2 c3 show ?thesis
    unfolding name by blast
qed

text \<open>
  \<open>updateUser\<close> merges whatever the patch holds: after
  \<open>updateUser('mario', {username: 'admin'})\<close> the record under the key \<open>mario\<close> has the
  username \<open>admin\<close>, and the registry is no longer keyed.
\<close>

theorem updateUser_renames:
  "map_of (users logged_out) (JStr ''mario'') = Some example_mario \<and>
   get_prop example_mario ''username'' = JStr ''mario'' \<and>
   keyed (users logged_out) \<and>
   fst (updateUser (JStr ''mario'') [(''username'', JStr ''admin'')]
          ''2024-06-01T00:00:00.000Z'' logged_out) = Inr renamed_mario \<and>
   map_of (users renamed) (JStr ''mario'') = Some renamed_mario \<and>
   get_prop renamed_mario ''username'' = JStr ''admin'' \<and>
   \<not> keyed (users renamed)"
  by (simp add: renamed_def updateUser_def logged_out_def saveUsers_def Let_def assign_def
        example_mario_def example_admin_def renamed_mario_def keyed_def get_prop_def)

subsection \<open>Saving and loading again\<close>

lemma keys_json_obj: "fst ` set (json_obj ob) \<subseteq> fst ` set ob"
  by (force simp: json_obj_def)

lemma get_prop_absent: "f \<notin> fst ` set ob \<Longrightarrow> get_prop ob f = JUndefined"
  by (simp add: get_prop_def map_of_eq_None_iff[THEN iffD2])

lemma json_obj_Cons:
  "json_obj ((k, v) # ob) =
     (if v = JUndefined then json_obj ob else (k, json_value v) # json_obj ob)"
  by (simp add: json_obj_def)

lemma get_prop_Cons: "get_prop ((k, v) # ob) f = (if f = k then v else get_prop ob f)"
  by (simp add: get_prop_def)

text \<open>A record that is JSON data reads the same, property by property, after the round trip.\<close>

lemma get_prop_json_obj: "json_data ob \<Longrightarrow> get_prop (json_obj ob) f = get_prop ob f"
proof (induction ob)
  case Nil
  then show ?case by (simp add: json_obj_def)
next
  case (Cons p ob)
  obtain k v where p: "p = (k, v)" by (cases p)
  from Cons.prems p have fresh: "k \<notin> fst ` set ob" and stable: "json_value v = v"
    and rest: "json_data ob"
    by (auto simp: json_data_def)
  have absent: "get_prop (json_obj ob) k = JUndefined"
    using fresh keys_json_obj[of ob] by (intro get_prop_absent) blast
  show ?case
    using Cons.IH[OF rest] stable absent
    by (auto simp: p json_obj_Cons get_prop_Cons)
qed

lemma set_each_append:
  "distinct (map fst (acc @ m)) \<Longrightarrow> list_all (\<lambda>(k, user). get_prop (h user) ''username'' = k) m
     \<Longrightarrow> set_each (map (h \<circ> snd) m) acc = acc @ map (\<lambda>(k, user). (k, h user)) m"
  unfolding set_each_def
proof (induction m arbitrary: acc)
  case Nil
  then show ?case by simp
next
  case (Cons e m)
  obtain k user where e: "e = (k, user)" by (cases e)
  have k: "get_prop (h user) ''username'' = k" using Cons.prems(2) e by simp
  have fresh: "k \<notin> fst ` set acc" using Cons.prems(1) e by auto
  have "distinct (map fst ((acc @ [(k, h user)]) @ m))" using Cons.prems(1) e by simp
  moreover have "list_all (\<lambda>(k, user). get_prop (h user) ''username'' = k) m"
    using Cons.prems(2) by simp
  ultimately have "fold (\<lambda>user. map_set (get_prop user ''username'') user) (map (h \<circ> snd) m)
      (acc @ [(k, h user)]) = (acc @ [(k, h user)]) @ map (\<lambda>(k, user). (k, h user)) m"
    by (rule Cons.IH)
  then show ?case using e k fresh by (simp add: map_set_fresh comp_def)
qed

lemma loadFromStorage_snapshot:
  assumes "stored_users s1 = Some (Json (map (json_obj \<circ> snd) m))" and "m \<noteq> []"
    and "keyed m" and "list_all (\<lambda>(k, user). json_data user) m"
  shows "users (loadFromStorage stamp s1) = map (\<lambda>(k, user). (k, json_obj user)) m"
proof -
  have "list_all (\<lambda>(k, user). get_prop (json_obj user) ''username'' = k) m"
    using assms(3,4) by (force simp: keyed_def list_all_iff get_prop_json_obj)
  then have "set_each (map (json_obj \<circ> snd) m) [] = [] @ map (\<lambda>(k, user). (k, json_obj user)) m"
    using assms(3) by (intro set_each_append) (simp_all add: keyed_def)
  then show ?thesis
    using assms(1,2) by (simp add: loadFromStorage_def Let_def)
qed

text \<open>
  C7, as the code has it. Let the registry be non-empty and keyed (every record stored
  under its own username), let every record be JSON data, and let the fetch fail. Then
  \<open>saveUsers\<close> followed by \<open>loadUsers\<close> yields the same keys in the same order, each
  with the record as JSON returns it, which reads the same in every property; and when
  no property of a record is \<open>undefined\<close> the registry is identical to the one saved.
\<close>

theorem save_load_roundtrip:
  assumes "users s \<noteq> []" and "keyed (users s)"
    and "list_all (\<lambda>(k, user). json_data user) (users s)"
    and "fetched = NetworkError \<or> fetched = NotOk \<or> fetched = BodyNotJson \<or> fetched = NoUsersObject"
  shows "users (loadUsers fetched stamp (saveUsers s))
           = map (\<lambda>(k, user). (k, json_obj user)) (users s)
         \<and> list_all (\<lambda>(k, user). \<forall>f. get_prop (json_obj user) f = get_prop user f) (users s)
         \<and> (list_all (\<lambda>(k, user). JUndefined \<notin> snd ` set user) (users s)
              \<longrightarrow> users (loadUsers fetched stamp (saveUsers s)) = users s)"
proof -
  have saved: "stored_users (saveUsers s) = Some (Json (map (json_obj \<circ> snd) (users s)))"
    by (simp add: saveUsers_def map_values_def)
  have a: "users (loadFromStorage stamp (saveUsers s))
      = map (\<lambda>(k, user). (k, json_obj user)) (users s)"
    using saved assms(1,2,3) by (rule loadFromStorage_snapshot)
  have b: "users (loadFromStorage stamp ((saveUsers s)\<lparr>users := []\<rparr>))
      = map (\<lambda>(k, user). (k, json_obj user)) (users s)"
    using assms(1,2,3) by (intro loadFromStorage_snapshot) (simp_all add: saved)
  have loaded: "users (loadUsers fetched stamp (saveUsers s))
      = map (\<lambda>(k, user). (k, json_obj user)) (users s)"
    using a b assms(4) by (auto simp: loadUsers_def)
  have reads: "list_all (\<lambda>(k, user). \<forall>f. get_prop (json_obj user) f = get_prop user f) (users s)"
    using assms(3) by (auto simp: list_all_iff get_prop_json_obj)
  have same: "map (\<lambda>(k, user). (k, json_obj user)) (users s) = users s"
    if defined: "list_all (\<lambda>(k, user). JUndefined \<notin> snd ` set user) (users s)"
  proof -
    have "json_obj user = user" if mem: "(k, user) \<in> set (users s)" for k user
    proof -
      have "json_data user" and "JUndefined \<notin> snd ` set user"
        using mem assms(3) defined by (auto simp: list_all_iff)
      then have "filter (\<lambda>(f, v). v \<noteq> JUndefined) user = user"
        and "map (\<lambda>(f, v). (f, json_value v)) user = user"
        by (force simp: json_data_def list_all_iff intro!: filter_True map_idI)+
      then show ?thesis by (simp add: json_obj_def)
    qed
    then show ?thesis by (auto intro!: map_idI)
  qed
  from loaded reads same show ?thesis by simp
qed

text \<open>The example registry, saved and loaded with the network down.\<close>

theorem save_load_roundtrip_witness:
  "users logged_out \<noteq> [] \<and> keyed (users logged_out) \<and>
   users (loadUsers NetworkError ''2024-06-01T00:00:00.000Z'' (saveUsers logged_out))
     = users logged_out"
proof -
  have nonempty: "users logged_out \<noteq> []"
    by (simp add: logged_out_def)
  have k: "keyed (users logged_out)"
    by (simp add: keyed_def logged_out_def example_admin_def example_mario_def get_prop_def)
  have data: "list_all (\<lambda>(k, user). json_data user) (users logged_out)"
    by (simp add: json_data_def logged_out_def example_admin_def example_mario_def)
  have defined: "list_all (\<lambda>(k, user). JUndefined \<notin> snd ` set user) (users logged_out)"
    by (simp add: logged_out_def example_admin_def example_mario_def)
  have down: "NetworkError = NetworkError \<or> NetworkError = NotOk \<or> NetworkError = BodyNotJson
      \<or> NetworkError = NoUsersObject"
    by simp
  from save_load_roundtrip [OF nonempty k data down, of "''2024-06-01T00:00:00.000Z''"] defined
  have "users (loadUsers NetworkError ''2024-06-01T00:00:00.000Z'' (saveUsers logged_out))
     = users logged_out"
    by blast
  with nonempty k show ?thesis by blast
qed

text \<open>
  Three registries that do not come back as they were saved: the empty registry of a
  fresh instance comes back holding the default administrator; the two records of
  \<open>renamed\<close>, both with the username \<open>admin\<close>, come back as one; and the array
  \<open>[undefined]\<close> of \<open>sparse\<close> comes back as \<open>[null]\<close>.
\<close>

theorem save_load_changes_registry:
  "users (loadUsers NetworkError ''2024-06-01T00:00:00.000Z'' (saveUsers fresh)) \<noteq> users fresh \<and>
   users fresh = [] \<and>
   users (loadUsers NetworkError ''2024-06-01T00:00:00.000Z'' (saveUsers fresh))
     = [(JStr ''admin'', hd (defaultUsers ''2024-06-01T00:00:00.000Z''))] \<and>
   users renamed = [(JStr ''admin'', example_admin), (JStr ''mario'', renamed_mario)] \<and>
   users (loadUsers NetworkError ''2024-06-01T00:00:00.000Z'' (saveUsers renamed))
     = [(JStr ''admin'', renamed_mario)] \<and>
   get_prop (snd (hd (users sparse))) ''permissions'' = JArr [JUndefined] \<and>
   get_prop (snd (hd (users
       (loadUsers NetworkError ''2024-06-01T00:00:00.000Z'' (saveUsers sparse))))) ''permissions''
     = JArr [JNull]"
proof -
  have c1: "users fresh = []"
    by (simp add: fresh_def constructor_def)
  have c2: "users (loadUsers NetworkError ''2024-06-01T00:00:00.000Z'' (saveUsers fresh))
     = [(JStr ''admin'', hd (defaultUsers ''2024-06-01T00:00:00.000Z''))]"
    by (simp add: fresh_def constructor_def loadUsers_def loadFromStorage_def saveUsers_def
          map_values_def set_each_def Let_def users_initializeDefaultUsers)
  have c3: "users renamed = [(JStr ''admin'', example_admin), (JStr ''mario'', renamed_mario)]"
    by (simp add: renamed_def updateUser_def logged_out_def saveUsers_def Let_def assign_def
          example_mario_def renamed_mario_def)
  have c4: "users (loadUsers NetworkError ''2024-06-01T00:00:00.000Z'' (saveUsers renamed))
     = [(JStr ''admin'', renamed_mario)]"
    by (simp add: c3 loadUsers_def loadFromStorage_def saveUsers_def map_values_def set_each_def
          Let_def json_obj_def get_prop_def example_admin_def renamed_mario_def)
  have c5: "users sparse = [(JStr ''x'',
       [(''username'', JStr ''x''), (''permissions'', JArr [JUndefined]),
        (''active'', JBool True), (''createdAt'', JStr ''2024-06-01T00:00:00.000Z'')])]"
    by (simp add: sparse_def fresh_def constructor_def addUser_def map_has_def saveUsers_def
          Let_def assign_def get_prop_def)
  have c6: "get_prop (snd (hd (users
       (loadUsers NetworkError ''2024-06-01T00:00:00.000Z'' (saveUsers sparse))))) ''permissions''
     = JArr [JNull]"
    by (simp add: c5 loadUsers_def loadFromStorage_def saveUsers_def map_values_def set_each_def
          Let_def json_obj_def get_prop_def)
  from c1 c2 c3 c4 c5 c6 show ?thesis
    by (simp add: get_prop_def)
qed

subsection \<open>Listing the users\<close>

lemma get_prop_listed:
  "get_prop (listed u) k =
     (if k \<in> {''username'', ''displayName'', ''role'', ''active'', ''createdAt'', ''updatedAt''}
      then get_prop u k else JUndefined)"
  by (auto simp: listed_def get_prop_def)

text \<open>
  C4, as the code has it. \<open>getAllUsers\<close> fails with \<open>PermissionDenied\<close> when the session
  is missing or invalid and when its role is not \<open>admin\<close> (a stored array has no role). With a valid session of role
  \<open>admin\<close> it returns one entry per registered user, in registry order; an entry has
  exactly the six properties username, displayName, role, active, createdAt and
  updatedAt, each read from the user's record. The password, the permissions and any
  other property of the record are left out, so no entry has a password property.
\<close>

theorem getAllUsers_results:
  "(\<not> fst (isSessionValid now s) \<longrightarrow> fst (getAllUsers now s) = Inl PermissionDenied) \<and>
   (stored_session s = Some (Json SessionArray)
      \<longrightarrow> fst (getAllUsers now s) = Inl PermissionDenied) \<and>
   (stored_session s = Some (Json (SessionObject se))
      \<and> (case expiresAt se of None \<Rightarrow> True | Some e \<Rightarrow> now \<le> e)
      \<and> role se \<noteq> JStr ''admin''
      \<longrightarrow> fst (getAllUsers now s) = Inl PermissionDenied) \<and>
   (stored_session s = Some (Json (SessionObject se))
      \<and> (case expiresAt se of None \<Rightarrow> True | Some e \<Rightarrow> now \<le> e)
      \<and> role se = JStr ''admin''
      \<longrightarrow> fst (getAllUsers now s) = Inr (map listed (map_values (users s)))
          \<and> length (map listed (map_values (users s))) = length (users s)) \<and>
   map fst (listed u) =
     [''username'', ''displayName'', ''role'', ''active'', ''createdAt'', ''updatedAt''] \<and>
   (\<forall>k \<in> set (map fst (listed u)). get_prop (listed u) k = get_prop u k) \<and>
   ''password'' \<notin> fst ` set (listed u) \<and>
   get_prop (listed u) ''password'' = JUndefined \<and>
   get_prop (listed u) ''permissions'' = JUndefined"
  by (auto simp: getAllUsers_def getCurrentUser_def isSessionValid_def Let_def logout_def
        past_def read_session_def stringify_session_def
        map_values_def get_prop_listed split: option.splits stored.splits)
     (auto simp: listed_def)

text \<open>
  On the example registry: nobody logged in; the administrator's session expired; mario
  logged in; the administrator logged in.
\<close>

theorem getAllUsers_results_witness:
  "fst (getAllUsers 1000 logged_out) = Inl PermissionDenied \<and>
   fst (getAllUsers 86400001 admin_logged_in) = Inl PermissionDenied \<and>
   fst (getAllUsers 1000 mario_logged_in) = Inl PermissionDenied \<and>
   fst (getAllUsers 1000 array_stored) = Inl PermissionDenied \<and>
   fst (getAllUsers 1000 admin_logged_in) = Inr [listed example_admin, listed example_mario] \<and>
   get_prop (listed example_admin) ''role'' = JStr ''admin''"
proof -
  have out: "\<not> fst (isSessionValid 1000 logged_out)"
    by (simp add: isSessionValid_def logged_out_def)
  have expired: "\<not> fst (isSessionValid 86400001 admin_logged_in)"
    by (simp add: isSessionValid_def admin_logged_in_def admin_session_def Let_def past_def
          read_session_def)
  have mario: "stored_session mario_logged_in = Some (Json (SessionObject mario_session))
      \<and> (case expiresAt mario_session of None \<Rightarrow> True | Some e \<Rightarrow> 1000 \<le> e)
      \<and> role mario_session \<noteq> JStr ''admin''"
    by (simp add: mario_logged_in_def mario_session_def)
  have admin: "stored_session admin_logged_in = Some (Json (SessionObject admin_session))
      \<and> (case expiresAt admin_session of None \<Rightarrow> True | Some e \<Rightarrow> 1000 \<le> e)
      \<and> role admin_session = JStr ''admin''"
    by (simp add: admin_logged_in_def admin_session_def)
  have registry: "map listed (map_values (users admin_logged_in))
      = [listed example_admin, listed example_mario]"
    by (simp add: admin_logged_in_def logged_out_def map_values_def)
  have key: "''role'' \<in> set (map fst (listed example_admin))"
    and read: "get_prop example_admin ''role'' = JStr ''admin''"
    by (simp_all add: listed_def example_admin_def get_prop_def)
  from getAllUsers_results [where s = logged_out and now = 1000] out
  have c1: "fst (getAllUsers 1000 logged_out) = Inl PermissionDenied"
    by blast
  from getAllUsers_results [where s = admin_logged_in and now = 86400001] expired
  have c2: "fst (getAllUsers 86400001 admin_logged_in) = Inl PermissionDenied"
    by blast
  from getAllUsers_results [where s = mario_logged_in and now = 1000 and se = mario_session] mario
  have c3: "fst (getAllUsers 1000 mario_logged_in) = Inl PermissionDenied"
    by blast
  have array: "stored_session array_stored = Some (Json SessionArray)"
    by (simp add: array_stored_def)
  from getAllUsers_results [where s = array_stored and now = 1000] array
  have c3a: "fst (getAllUsers 1000 array_stored) = Inl PermissionDenied"
    by blast
  from getAllUsers_results [where s = admin_logged_in and now = 1000 and se = admin_session] admin
  have c4: "fst (getAllUsers 1000 admin_logged_in) = Inr [listed example_admin, listed example_mario]"
    unfolding registry by blast
  from getAllUsers_results [where u = example_admin] key
  have c5: "get_prop (listed example_admin) ''role'' = JStr ''admin''"
    unfolding read [symmetric] by blast
  from c1 c2 c3 c3a c4 c5 show ?thesis by blast
qed

text \<open>
  The administrator's record holds permissions; the entry \<open>getAllUsers\<close> returns for it
  holds none, and so is not the record with only the password removed.
\<close>

theorem getAllUsers_drops_permissions:
  "fst (getAllUsers 1000 admin_logged_in) = Inr [listed example_admin, listed example_mario] \<and>
   map_values (users admin_logged_in) = [example_admin, example_mario] \<and>
   get_prop example_admin ''permissions'' = JArr [JStr ''reports''] \<and>
   get_prop (spec_redacted example_admin) ''permissions'' = JArr [JStr ''reports''] \<and>
   get_prop (listed example_admin) ''permissions'' = JUndefined \<and>
   fst (getAllUsers 1000 admin_logged_in)
     \<noteq> Inr (map spec_redacted (map_values (users admin_logged_in)))"
proof -
  have c1: "fst (getAllUsers 1000 admin_logged_in)
      = Inr [listed example_admin, listed example_mario]"
    by (simp add: getAllUsers_def getCurrentUser_def isSessionValid_def Let_def past_def
          read_session_def
          admin_logged_in_def logged_out_def admin_session_def map_values_def)
  have c2: "map_values (users admin_logged_in) = [example_admin, example_mario]"
    by (simp add: admin_logged_in_def logged_out_def map_values_def)
  have c3: "get_prop example_admin ''permissions'' = JArr [JStr ''reports'']"
    and c4: "get_prop (spec_redacted example_admin) ''permissions'' = JArr [JStr ''reports'']"
    and c5: "get_prop (listed example_admin) ''permissions'' = JUndefined"
    by (simp_all add: spec_redacted_def listed_def example_admin_def get_prop_def)
  from c4 c5 have "listed example_admin \<noteq> spec_redacted example_admin"
    by auto
  with c1 c2 c3 c4 c5 show ?thesis by simp
qed

subsection \<open>Deactivation and the session\<close>

text \<open>
  C10. \<open>deactivateUser\<close> changes neither the stored session nor the cached one, so
  after it \<open>isSessionValid\<close>, \<open>getCurrentUser\<close>, \<open>hasRole\<close> and \<open>isAdmin\<close> answer at every
  time what they would have answered without it; a session that has not expired is
  still valid and is still what \<open>getCurrentUser\<close> returns, with its expiry extended as
  by every validation. The answers of \<open>isSessionValid\<close> and \<open>getCurrentUser\<close> do not
  depend on the registry or on the persisted users at all.
\<close>

theorem deactivate_keeps_session:
  "stored_session (snd (deactivateUser name stamp s)) = stored_session s \<and>
   currentUser (snd (deactivateUser name stamp s)) = currentUser s \<and>
   fst (isSessionValid t (snd (deactivateUser name stamp s))) = fst (isSessionValid t s) \<and>
   fst (getCurrentUser t (snd (deactivateUser name stamp s))) = fst (getCurrentUser t s) \<and>
   fst (hasRole r t (snd (deactivateUser name stamp s))) = fst (hasRole r t s) \<and>
   fst (isAdmin t (snd (deactivateUser name stamp s))) = fst (isAdmin t s) \<and>
   (stored_session s = Some (Json p)
      \<and> (case expiresAt (read_session p) of None \<Rightarrow> True | Some e \<Rightarrow> t \<le> e)
      \<longrightarrow> fst (isSessionValid t (snd (deactivateUser name stamp s)))
          \<and> fst (getCurrentUser t (snd (deactivateUser name stamp s)))
              = Some ((read_session p)\<lparr>expiresAt := Some (t + 86400000)\<rparr>)) \<and>
   fst (isSessionValid t (s\<lparr>users := m, stored_users := su\<rparr>)) = fst (isSessionValid t s) \<and>
   fst (getCurrentUser t (s\<lparr>users := m, stored_users := su\<rparr>)) = fst (getCurrentUser t s)"
  by (auto simp: deactivateUser_def updateUser_def saveUsers_def isSessionValid_def past_def
        getCurrentUser_def hasRole_def isAdmin_def Let_def logout_def sessionDuration_ms
        split: option.splits stored.splits)

text \<open>
  The administrator is logged in and is deactivated: the record is inactive, the
  session is still valid, and \<open>isAdmin\<close> still answers yes.
\<close>

theorem deactivate_keeps_session_witness:
  "(\<exists>user. fst (deactivateUser (JStr ''admin'') ''2024-06-01T00:00:00.000Z'' admin_logged_in)
        = Inr user \<and> get_prop user ''active'' = JBool False) \<and>
   fst (isSessionValid 1000
     (snd (deactivateUser (JStr ''admin'') ''2024-06-01T00:00:00.000Z'' admin_logged_in))) \<and>
   fst (getCurrentUser 1000
     (snd (deactivateUser (JStr ''admin'') ''2024-06-01T00:00:00.000Z'' admin_logged_in)))
     = Some (admin_session\<lparr>expiresAt := Some 86401000\<rparr>) \<and>
   fst (isAdmin 1000
     (snd (deactivateUser (JStr ''admin'') ''2024-06-01T00:00:00.000Z'' admin_logged_in)))"
proof -
  have off: "\<exists>user. fst (deactivateUser (JStr ''admin'') ''2024-06-01T00:00:00.000Z''
        admin_logged_in) = Inr user \<and> get_prop user ''active'' = JBool False"
    by (simp add: deactivateUser_def updateUser_def admin_logged_in_def logged_out_def Let_def
          assign_def example_admin_def get_prop_def)
  have session: "stored_session admin_logged_in = Some (Json (SessionObject admin_session))
      \<and> (case expiresAt (read_session (SessionObject admin_session)) of None \<Rightarrow> True | Some e \<Rightarrow> 1000 \<le> e)"
    and reads: "read_session (SessionObject admin_session) = admin_session"
    by (simp_all add: admin_logged_in_def admin_session_def read_session_def)
  have before: "fst (isAdmin 1000 admin_logged_in)"
    by (simp add: isAdmin_def hasRole_def getCurrentUser_def isSessionValid_def Let_def past_def
          read_session_def
          admin_logged_in_def admin_session_def)
  note d = deactivate_keeps_session [where s = admin_logged_in and name = "JStr ''admin''"
      and stamp = "''2024-06-01T00:00:00.000Z''" and t = 1000
      and p = "SessionObject admin_session"]
  from d session
  have c1: "fst (isSessionValid 1000
       (snd (deactivateUser (JStr ''admin'') ''2024-06-01T00:00:00.000Z'' admin_logged_in)))
     \<and> fst (getCurrentUser 1000
       (snd (deactivateUser (JStr ''admin'') ''2024-06-01T00:00:00.000Z'' admin_logged_in)))
       = Some (admin_session\<lparr>expiresAt := Some (1000 + 86400000)\<rparr>)"
    unfolding reads by blast
  from d before
  have c2: "fst (isAdmin 1000
     (snd (deactivateUser (JStr ''admin'') ''2024-06-01T00:00:00.000Z'' admin_logged_in)))"
    by blast
  from off c1 c2 show ?thesis by simp
qed

end

